theory Spec2Isabelle
  imports Complex_Main
begin

section \<open>Data model\<close>

text \<open>
  The kernel of \<^verbatim>\<open>src/MomentumMassElemKernel.C\<close> is a class template over
  \<^verbatim>\<open>AlgTraits\<close>; the three compile-time constants it reads are a record.

  The scalar type \<^verbatim>\<open>double\<close> is the type variable \<open>'a\<close>. The definitions use
  only the operations the source uses (\<open>0\<close>, \<open>+\<close>, \<open>-\<close>, \<open>*\<close>, \<open>/\<close>), each theorem
  names in its sort the laws of arithmetic it relies on: a theorem at sort
  \<open>{zero,plus,times,uminus,minus,inverse}\<close> assumes no law at all, a theorem at
  sort \<open>field\<close> is about exact arithmetic (rounding, infinities and NaN are not
  part of it). Where a claim depends on what a NaN does, the scalars are the
  type \<open>fpval\<close> defined below, the real numbers with an absorbing NaN.

  Indices are natural numbers. A view (\<^verbatim>\<open>SharedMemView\<close>) is a total map from
  indices to scalars: the source does no bounds check, and the extents of the
  views are outside the model. The two buffers of the caller, the scratch
  views and the work arrays of the kernel are separate memory: a write to one
  is never a write to another.
\<close>

record AlgTraits =
  nDim :: nat
  nodesPerElement :: nat
  numScvIp :: nat

text \<open>
  The master element returned by \<^verbatim>\<open>get_volume_master_element(AlgTraits::topo_)\<close>
  is not part of the source file; the three things the constructor asks of it
  are taken as given.
\<close>

record 'a MasterElement =
  me_ipNodeMap :: "nat \<Rightarrow> nat"
  shape_fcn :: "nat \<Rightarrow> nat \<Rightarrow> 'a"
  shifted_shape_fcn :: "nat \<Rightarrow> nat \<Rightarrow> 'a"

text \<open>
  Fields of the mesh database. A field pointer is the identity of the field
  object it points to; \<^verbatim>\<open>field_of_state\<close> and \<^verbatim>\<open>number_of_states\<close> belong
  to the mesh library and are taken as given.
\<close>

datatype FieldState = StateNM1 | StateN | StateNP1

type_synonym FieldPtr = nat

record Field =
  field_ptr :: FieldPtr
  number_of_states :: nat
  field_of_state :: "FieldState \<Rightarrow> FieldPtr"

record MetaData =
  get_field :: "string \<Rightarrow> Field option"

record SolutionOptions =
  get_coordinates_name :: string

text \<open>The requests the constructor registers, in the order of registration.\<close>

datatype 'a DataRequest =
    Cvfem_volume_me "'a MasterElement"
  | Gathered_nodal_field FieldPtr nat
  | Master_element_call_SCV_VOLUME

type_synonym 'a ElemDataRequests = "'a DataRequest list"

record 'a TimeIntegrator =
  get_time_step :: 'a
  get_gamma1 :: 'a
  get_gamma2 :: 'a
  get_gamma3 :: 'a

text \<open>
  The scratch views of one element: the gathered nodal values of every
  registered field, by field pointer, and the sub-control-volume measures.
\<close>

record 'a ScratchViews =
  get_scratch_view_1D :: "FieldPtr \<Rightarrow> nat \<Rightarrow> 'a"
  get_scratch_view_2D :: "FieldPtr \<Rightarrow> nat \<Rightarrow> nat \<Rightarrow> 'a"
  scv_volume :: "nat \<Rightarrow> 'a"

text \<open>
  The data members of the kernel. The four work arrays \<open>v_uNm1\<close>, \<open>v_uN\<close>,
  \<open>v_uNp1\<close>, \<open>v_Gjp\<close> are members too: \<^verbatim>\<open>execute\<close> writes them, so the kernel
  is part of the state \<^verbatim>\<open>execute\<close> changes.
\<close>

record 'a Kernel =
  lumpedMass :: bool
  ipNodeMap :: "nat \<Rightarrow> nat"
  velocityNm1 :: FieldPtr
  velocityN :: FieldPtr
  velocityNp1 :: FieldPtr
  densityNm1 :: FieldPtr
  densityN :: FieldPtr
  densityNp1 :: FieldPtr
  Gjp :: FieldPtr
  coordinates :: FieldPtr
  dt :: 'a
  gamma1 :: 'a
  gamma2 :: 'a
  gamma3 :: 'a
  v_shape_function :: "nat \<Rightarrow> nat \<Rightarrow> 'a"
  v_uNm1 :: "nat \<Rightarrow> 'a"
  v_uN :: "nat \<Rightarrow> 'a"
  v_uNp1 :: "nat \<Rightarrow> 'a"
  v_Gjp :: "nat \<Rightarrow> 'a"

section \<open>Kernel configuration (the constructor)\<close>

text \<open>
  \<open>k0\<close> is the storage of the object before the constructor body runs: the
  members the constructor does not assign (\<open>dt\<close>, the three \<open>gamma\<close>, the work
  arrays) keep what \<open>k0\<close> holds. A field that \<^verbatim>\<open>get_field\<close> does not find is a
  null pointer, which the constructor dereferences: the model returns \<open>None\<close>.
\<close>

definition MomentumMassElemKernel ::
  "AlgTraits \<Rightarrow> 'a MasterElement \<Rightarrow> MetaData \<Rightarrow> SolutionOptions \<Rightarrow>
   'a ElemDataRequests \<Rightarrow> bool \<Rightarrow> 'a Kernel \<Rightarrow> ('a Kernel \<times> 'a ElemDataRequests) option"
where
  "MomentumMassElemKernel T meSCV metaData solnOpts dataPreReqs lumped k0 =
    (case get_field metaData ''velocity'' of None \<Rightarrow> None | Some velocity \<Rightarrow>
    (case get_field metaData ''density'' of None \<Rightarrow> None | Some density \<Rightarrow>
    (case get_field metaData ''dpdx'' of None \<Rightarrow> None | Some Gjp_f \<Rightarrow>
    (case get_field metaData (get_coordinates_name solnOpts) of None \<Rightarrow> None
     | Some coordinates_f \<Rightarrow>
       (let velN = field_of_state velocity StateN;
            velNp1 = field_of_state velocity StateNP1;
            velNm1 = (if number_of_states velocity = 2 then velN
                      else field_of_state velocity StateNM1);
            denN = field_of_state density StateN;
            denNp1 = field_of_state density StateNP1;
            denNm1 = (if number_of_states density = 2 then denN
                      else field_of_state density StateNM1);
            k = k0\<lparr> lumpedMass := lumped,
                    ipNodeMap := me_ipNodeMap meSCV,
                    velocityNm1 := velNm1, velocityN := velN, velocityNp1 := velNp1,
                    densityNm1 := denNm1, densityN := denN, densityNp1 := denNp1,
                    Gjp := field_ptr Gjp_f,
                    coordinates := field_ptr coordinates_f,
                    v_shape_function :=
                      (if lumped then shifted_shape_fcn meSCV else shape_fcn meSCV) \<rparr>
        in Some (k,
             dataPreReqs @
             [ Cvfem_volume_me meSCV,
               Gathered_nodal_field (coordinates k) (nDim T),
               Gathered_nodal_field (densityNm1 k) 1,
               Gathered_nodal_field (densityN k) 1,
               Gathered_nodal_field (densityNp1 k) 1,
               Gathered_nodal_field (velocityNm1 k) (nDim T),
               Gathered_nodal_field (velocityN k) (nDim T),
               Gathered_nodal_field (velocityNp1 k) (nDim T),
               Gathered_nodal_field (Gjp k) (nDim T),
               Master_element_call_SCV_VOLUME ]))))))"

section \<open>Time-step binding\<close>

definition kernel_setup :: "('a, 'z) TimeIntegrator_scheme \<Rightarrow> 'a Kernel \<Rightarrow> 'a Kernel" where
  "kernel_setup timeIntegrator k =
     k\<lparr> dt := get_time_step timeIntegrator,
        gamma1 := get_gamma1 timeIntegrator,
        gamma2 := get_gamma2 timeIntegrator,
        gamma3 := get_gamma3 timeIntegrator \<rparr>"

section \<open>The per-element evaluator\<close>

text \<open>
  The eight views \<^verbatim>\<open>execute\<close> takes from the scratch views before its loop,
  under the names of the local references of the source.
\<close>

record 'a LocalViews =
  v_densityNm1 :: "nat \<Rightarrow> 'a"
  v_densityN :: "nat \<Rightarrow> 'a"
  v_densityNp1 :: "nat \<Rightarrow> 'a"
  v_velocityNm1 :: "nat \<Rightarrow> nat \<Rightarrow> 'a"
  v_velocityN :: "nat \<Rightarrow> nat \<Rightarrow> 'a"
  v_velocityNp1 :: "nat \<Rightarrow> nat \<Rightarrow> 'a"
  v_Gpdx :: "nat \<Rightarrow> nat \<Rightarrow> 'a"
  v_scv_volume :: "nat \<Rightarrow> 'a"

definition local_views :: "'a Kernel \<Rightarrow> 'a ScratchViews \<Rightarrow> 'a LocalViews" where
  "local_views k scratchViews =
     \<lparr> v_densityNm1 = get_scratch_view_1D scratchViews (densityNm1 k),
       v_densityN = get_scratch_view_1D scratchViews (densityN k),
       v_densityNp1 = get_scratch_view_1D scratchViews (densityNp1 k),
       v_velocityNm1 = get_scratch_view_2D scratchViews (velocityNm1 k),
       v_velocityN = get_scratch_view_2D scratchViews (velocityN k),
       v_velocityNp1 = get_scratch_view_2D scratchViews (velocityNp1 k),
       v_Gpdx = get_scratch_view_2D scratchViews (Gjp k),
       v_scv_volume = scv_volume scratchViews \<rparr>"

text \<open>Lines 123-128: the work arrays are zeroed for every dimension.\<close>

definition zero_work :: "AlgTraits \<Rightarrow> 'a::zero Kernel \<Rightarrow> 'a Kernel" where
  "zero_work T k =
     fold (\<lambda>j k. k\<lparr> v_uNm1 := (v_uNm1 k)(j := 0),
                    v_uN := (v_uN k)(j := 0),
                    v_uNp1 := (v_uNp1 k)(j := 0),
                    v_Gjp := (v_Gjp k)(j := 0) \<rparr>)
          [0..<nDim T] k"

text \<open>Lines 136-141: the contribution of node \<open>ic\<close>, weight \<open>r\<close>, to the work arrays.\<close>

definition interp_dims ::
  "AlgTraits \<Rightarrow> 'a LocalViews \<Rightarrow> 'a \<Rightarrow> nat \<Rightarrow> 'a::{plus,times} Kernel \<Rightarrow> 'a Kernel" where
  "interp_dims T v r ic k =
     fold (\<lambda>j k. k\<lparr> v_uNm1 := (v_uNm1 k)(j := v_uNm1 k j + r * v_velocityNm1 v ic j),
                    v_uN := (v_uN k)(j := v_uN k j + r * v_velocityN v ic j),
                    v_uNp1 := (v_uNp1 k)(j := v_uNp1 k j + r * v_velocityNp1 v ic j),
                    v_Gjp := (v_Gjp k)(j := v_Gjp k j + r * v_Gpdx v ic j) \<rparr>)
          [0..<nDim T] k"

text \<open>
  Lines 130-142: the loop over the nodes of the element. Its state is the
  kernel and the three local densities \<open>(rhoNm1, rhoN, rhoNp1)\<close>.
\<close>

definition interp_nodes ::
  "AlgTraits \<Rightarrow> 'a LocalViews \<Rightarrow> nat \<Rightarrow> 'a::{plus,times} Kernel \<times> 'a \<times> 'a \<times> 'a \<Rightarrow>
   'a Kernel \<times> 'a \<times> 'a \<times> 'a" where
  "interp_nodes T v ip st =
     fold (\<lambda>ic (k, rhoNm1, rhoN, rhoNp1).
             let r = v_shape_function k ip ic
             in (interp_dims T v r ic k,
                 rhoNm1 + r * v_densityNm1 v ic,
                 rhoN + r * v_densityN v ic,
                 rhoNp1 + r * v_densityNp1 v ic))
          [0..<nodesPerElement T] st"

text \<open>Lines 147-153: the residual.\<close>

definition rhs_dims ::
  "AlgTraits \<Rightarrow> 'a::{plus,times,uminus,minus,inverse} Kernel \<Rightarrow> nat \<Rightarrow> 'a \<Rightarrow> 'a \<Rightarrow> 'a \<Rightarrow> 'a \<Rightarrow>
   (nat \<Rightarrow> 'a) \<Rightarrow> (nat \<Rightarrow> 'a)" where
  "rhs_dims T k nnNdim rhoNm1 rhoN rhoNp1 scV rhs =
     fold (\<lambda>j rhs. rhs(nnNdim + j :=
               rhs (nnNdim + j) +
                 (- (gamma1 k * rhoNp1 * v_uNp1 k j +
                     gamma2 k * rhoN * v_uN k j +
                     gamma3 k * rhoNm1 * v_uNm1 k j) * scV / dt k
                  - v_Gjp k j * scV)))
          [0..<nDim T] rhs"

text \<open>Lines 161-164 and 156-165: the Jacobian.\<close>

definition lhs_dims ::
  "AlgTraits \<Rightarrow> nat \<Rightarrow> nat \<Rightarrow> 'a::plus \<Rightarrow> (nat \<Rightarrow> nat \<Rightarrow> 'a) \<Rightarrow> (nat \<Rightarrow> nat \<Rightarrow> 'a)" where
  "lhs_dims T nnNdim icNdim lhsfac lhs =
     fold (\<lambda>j lhs.
             let indexNN = nnNdim + j
             in lhs(indexNN := (lhs indexNN)(icNdim + j := lhs indexNN (icNdim + j) + lhsfac)))
          [0..<nDim T] lhs"

definition lhs_nodes ::
  "AlgTraits \<Rightarrow> 'a::{plus,times,inverse} Kernel \<Rightarrow> nat \<Rightarrow> nat \<Rightarrow> 'a \<Rightarrow> 'a \<Rightarrow>
   (nat \<Rightarrow> nat \<Rightarrow> 'a) \<Rightarrow> (nat \<Rightarrow> nat \<Rightarrow> 'a)" where
  "lhs_nodes T k ip nnNdim rhoNp1 scV lhs =
     fold (\<lambda>ic lhs.
             let icNdim = ic * nDim T;
                 r = v_shape_function k ip ic;
                 lhsfac = r * gamma1 k * rhoNp1 * scV / dt k
             in lhs_dims T nnNdim icNdim lhsfac lhs)
          [0..<nodesPerElement T] lhs"

text \<open>
  Lines 118-144: what one integration point computes before it writes the
  buffers: the kernel with its work arrays filled and the three densities.
\<close>

definition interpolate_ip ::
  "AlgTraits \<Rightarrow> 'a LocalViews \<Rightarrow> nat \<Rightarrow> 'a::{zero,plus,times} Kernel \<Rightarrow> 'a Kernel \<times> 'a \<times> 'a \<times> 'a" where
  "interpolate_ip T v ip k = interp_nodes T v ip (zero_work T k, 0, 0, 0)"

text \<open>Lines 117-166: the body of the loop over the integration points.\<close>

definition ip_body ::
  "AlgTraits \<Rightarrow> 'a LocalViews \<Rightarrow> nat \<Rightarrow>
   'a::{zero,plus,times,uminus,minus,inverse} Kernel \<times> (nat \<Rightarrow> nat \<Rightarrow> 'a) \<times> (nat \<Rightarrow> 'a) \<Rightarrow>
   'a Kernel \<times> (nat \<Rightarrow> nat \<Rightarrow> 'a) \<times> (nat \<Rightarrow> 'a)" where
  "ip_body T v ip st =
     (case st of (k, lhs, rhs) \<Rightarrow>
        let nearestNode = ipNodeMap k ip
        in (case interpolate_ip T v ip k of (k1, rhoNm1, rhoN, rhoNp1) \<Rightarrow>
          let scV = v_scv_volume v ip;
              nnNdim = nearestNode * nDim T;
              rhs1 = rhs_dims T k1 nnNdim rhoNm1 rhoN rhoNp1 scV rhs;
              lhs1 = lhs_nodes T k1 ip nnNdim rhoNp1 scV lhs
          in (k1, lhs1, rhs1)))"

text \<open>
  \<^verbatim>\<open>execute\<close>: the kernel, the Jacobian \<open>lhs\<close> and the residual \<open>rhs\<close> go in and
  come out; the element argument is unused in the source and left out.
\<close>

definition execute ::
  "AlgTraits \<Rightarrow> 'a::{zero,plus,times,uminus,minus,inverse} Kernel \<Rightarrow>
   (nat \<Rightarrow> nat \<Rightarrow> 'a) \<Rightarrow> (nat \<Rightarrow> 'a) \<Rightarrow> 'a ScratchViews \<Rightarrow>
   'a Kernel \<times> (nat \<Rightarrow> nat \<Rightarrow> 'a) \<times> (nat \<Rightarrow> 'a)" where
  "execute T k lhs rhs scratchViews =
     fold (ip_body T (local_views k scratchViews)) [0..<numScvIp T] (k, lhs, rhs)"

text \<open>The Jacobian and the residual that \<^verbatim>\<open>execute\<close> leaves in the caller's buffers.\<close>

definition execute_lhs ::
  "AlgTraits \<Rightarrow> 'a::{zero,plus,times,uminus,minus,inverse} Kernel \<Rightarrow>
   (nat \<Rightarrow> nat \<Rightarrow> 'a) \<Rightarrow> (nat \<Rightarrow> 'a) \<Rightarrow> 'a ScratchViews \<Rightarrow> (nat \<Rightarrow> nat \<Rightarrow> 'a)" where
  "execute_lhs T k lhs rhs s = fst (snd (execute T k lhs rhs s))"

definition execute_rhs ::
  "AlgTraits \<Rightarrow> 'a::{zero,plus,times,uminus,minus,inverse} Kernel \<Rightarrow>
   (nat \<Rightarrow> nat \<Rightarrow> 'a) \<Rightarrow> (nat \<Rightarrow> 'a) \<Rightarrow> 'a ScratchViews \<Rightarrow> (nat \<Rightarrow> 'a)" where
  "execute_rhs T k lhs rhs s = snd (snd (execute T k lhs rhs s))"

section \<open>The loops in closed form\<close>

text \<open>
  The definitions of this section restate what the loops above compute, without
  assuming any law of arithmetic; the lemmas of the next sections prove that
  they are what the loops compute. \<open>accumulate w f n a\<close> is the running sum
  \<^verbatim>\<open>a += w(ic) * f(ic)\<close> over \<open>ic = 0, \<dots>, n - 1\<close>, in that order, and
  \<open>ip_scalar\<close> is that sum from zero over the nodes of the element, with the
  row \<open>ip\<close> of the shape-function table as weights.
\<close>

definition accumulate :: "(nat \<Rightarrow> 'a) \<Rightarrow> (nat \<Rightarrow> 'a) \<Rightarrow> nat \<Rightarrow> 'a::{plus,times} \<Rightarrow> 'a" where
  "accumulate w f n a = fold (\<lambda>ic a. a + w ic * f ic) [0..<n] a"

definition ip_scalar :: "AlgTraits \<Rightarrow> 'a::{zero,plus,times} Kernel \<Rightarrow> nat \<Rightarrow> (nat \<Rightarrow> 'a) \<Rightarrow> 'a" where
  "ip_scalar T k ip f = accumulate (v_shape_function k ip) f (nodesPerElement T) 0"

text \<open>
  The value added to the residual at dimension \<open>j\<close> (lines 148-152) and to the
  Jacobian at column node \<open>ic\<close> (line 159) by the integration point \<open>ip\<close>.
\<close>

definition rhs_term ::
  "AlgTraits \<Rightarrow> 'a::{zero,plus,times,uminus,minus,inverse} Kernel \<Rightarrow> 'a LocalViews \<Rightarrow> nat \<Rightarrow> nat \<Rightarrow> 'a" where
  "rhs_term T k v ip j =
     - (gamma1 k * ip_scalar T k ip (v_densityNp1 v) * ip_scalar T k ip (\<lambda>ic. v_velocityNp1 v ic j) +
        gamma2 k * ip_scalar T k ip (v_densityN v) * ip_scalar T k ip (\<lambda>ic. v_velocityN v ic j) +
        gamma3 k * ip_scalar T k ip (v_densityNm1 v) * ip_scalar T k ip (\<lambda>ic. v_velocityNm1 v ic j))
       * v_scv_volume v ip / dt k
     - ip_scalar T k ip (\<lambda>ic. v_Gpdx v ic j) * v_scv_volume v ip"

definition lhs_term ::
  "AlgTraits \<Rightarrow> 'a::{zero,plus,times,inverse} Kernel \<Rightarrow> 'a LocalViews \<Rightarrow> nat \<Rightarrow> nat \<Rightarrow> 'a" where
  "lhs_term T k v ip ic =
     v_shape_function k ip ic * gamma1 k * ip_scalar T k ip (v_densityNp1 v) * v_scv_volume v ip / dt k"

text \<open>The kernel, the residual and the Jacobian after the integration point \<open>ip\<close>.\<close>

definition work_after ::
  "AlgTraits \<Rightarrow> 'a LocalViews \<Rightarrow> nat \<Rightarrow> 'a::{zero,plus,times} Kernel \<Rightarrow> 'a Kernel" where
  "work_after T v ip k =
     k\<lparr> v_uNm1 := (\<lambda>j. if j < nDim T then ip_scalar T k ip (\<lambda>ic. v_velocityNm1 v ic j) else v_uNm1 k j),
        v_uN := (\<lambda>j. if j < nDim T then ip_scalar T k ip (\<lambda>ic. v_velocityN v ic j) else v_uN k j),
        v_uNp1 := (\<lambda>j. if j < nDim T then ip_scalar T k ip (\<lambda>ic. v_velocityNp1 v ic j) else v_uNp1 k j),
        v_Gjp := (\<lambda>j. if j < nDim T then ip_scalar T k ip (\<lambda>ic. v_Gpdx v ic j) else v_Gjp k j) \<rparr>"

definition rhs_add ::
  "AlgTraits \<Rightarrow> 'a::{zero,plus,times,uminus,minus,inverse} Kernel \<Rightarrow> 'a LocalViews \<Rightarrow> nat \<Rightarrow>
   (nat \<Rightarrow> 'a) \<Rightarrow> (nat \<Rightarrow> 'a)" where
  "rhs_add T k v ip rhs =
     (\<lambda>i. if ipNodeMap k ip * nDim T \<le> i \<and> i < ipNodeMap k ip * nDim T + nDim T
          then rhs i + rhs_term T k v ip (i - ipNodeMap k ip * nDim T) else rhs i)"

definition lhs_add ::
  "AlgTraits \<Rightarrow> 'a::{zero,plus,times,inverse} Kernel \<Rightarrow> 'a LocalViews \<Rightarrow> nat \<Rightarrow>
   (nat \<Rightarrow> nat \<Rightarrow> 'a) \<Rightarrow> (nat \<Rightarrow> nat \<Rightarrow> 'a)" where
  "lhs_add T k v ip lhs =
     (\<lambda>r c. if ipNodeMap k ip * nDim T \<le> r \<and> r < ipNodeMap k ip * nDim T + nDim T \<and>
               c mod nDim T = r - ipNodeMap k ip * nDim T \<and> c div nDim T < nodesPerElement T
            then lhs r c + lhs_term T k v ip (c div nDim T) else lhs r c)"

text \<open>The same after the first \<open>n\<close> integration points.\<close>

definition work_run ::
  "AlgTraits \<Rightarrow> 'a LocalViews \<Rightarrow> nat \<Rightarrow> 'a::{zero,plus,times} Kernel \<Rightarrow> 'a Kernel" where
  "work_run T v n k = fold (work_after T v) [0..<n] k"

definition rhs_run ::
  "AlgTraits \<Rightarrow> 'a::{zero,plus,times,uminus,minus,inverse} Kernel \<Rightarrow> 'a LocalViews \<Rightarrow> nat \<Rightarrow>
   (nat \<Rightarrow> 'a) \<Rightarrow> (nat \<Rightarrow> 'a)" where
  "rhs_run T k v n rhs = fold (rhs_add T k v) [0..<n] rhs"

definition lhs_run ::
  "AlgTraits \<Rightarrow> 'a::{zero,plus,times,inverse} Kernel \<Rightarrow> 'a LocalViews \<Rightarrow> nat \<Rightarrow>
   (nat \<Rightarrow> nat \<Rightarrow> 'a) \<Rightarrow> (nat \<Rightarrow> nat \<Rightarrow> 'a)" where
  "lhs_run T k v n lhs = fold (lhs_add T k v) [0..<n] lhs"

text \<open>
  Two kernels have the same configuration when they differ in the four work
  arrays at most.
\<close>

definition same_config :: "'a Kernel \<Rightarrow> 'a Kernel \<Rightarrow> bool" where
  "same_config k k' \<longleftrightarrow>
     k'\<lparr> v_uNm1 := v_uNm1 k, v_uN := v_uN k, v_uNp1 := v_uNp1 k, v_Gjp := v_Gjp k \<rparr> = k"

section \<open>The quantities of the specification\<close>

text \<open>
  Interpolation as the specification words it: the sum of
  \<open>weight(ip, localNode) \<times> nodal value\<close> over all local nodes.
\<close>

definition interpolate ::
  "AlgTraits \<Rightarrow> 'a::{comm_monoid_add,times} Kernel \<Rightarrow> nat \<Rightarrow> (nat \<Rightarrow> 'a) \<Rightarrow> 'a" where
  "interpolate T k ip f = (\<Sum>ic<nodesPerElement T. v_shape_function k ip ic * f ic)"

text \<open>
  The term the specification subtracts from the residual,
  \<open>(\<gamma>1\<cdot>\<rho>\<^sub>n\<^sub>+\<^sub>1\<cdot>u\<^sub>n\<^sub>+\<^sub>1 + \<gamma>2\<cdot>\<rho>\<^sub>n\<cdot>u\<^sub>n + \<gamma>3\<cdot>\<rho>\<^sub>n\<^sub>-\<^sub>1\<cdot>u\<^sub>n\<^sub>-\<^sub>1) \<cdot> scV / dt + Gjp \<cdot> scV\<close>,
  and the term it adds to the Jacobian, \<open>weight(ip, ic) \<cdot> \<gamma>1 \<cdot> \<rho>\<^sub>n\<^sub>+\<^sub>1 \<cdot> scV / dt\<close>.
\<close>

definition residual_term ::
  "AlgTraits \<Rightarrow> 'a::{comm_monoid_add,times,inverse} Kernel \<Rightarrow> 'a LocalViews \<Rightarrow> nat \<Rightarrow> nat \<Rightarrow> 'a" where
  "residual_term T k v ip j =
     (gamma1 k * interpolate T k ip (v_densityNp1 v) * interpolate T k ip (\<lambda>ic. v_velocityNp1 v ic j) +
      gamma2 k * interpolate T k ip (v_densityN v) * interpolate T k ip (\<lambda>ic. v_velocityN v ic j) +
      gamma3 k * interpolate T k ip (v_densityNm1 v) * interpolate T k ip (\<lambda>ic. v_velocityNm1 v ic j))
       * v_scv_volume v ip / dt k
     + interpolate T k ip (\<lambda>ic. v_Gpdx v ic j) * v_scv_volume v ip"


text \<open>The integration points whose nearest node is \<open>n\<close>.\<close>

definition owned_ips :: "AlgTraits \<Rightarrow> 'a Kernel \<Rightarrow> nat \<Rightarrow> nat set" where
  "owned_ips T k n = {ip \<in> {..<numScvIp T}. ipNodeMap k ip = n}"

section \<open>A small element\<close>

text \<open>
  Two dimensions, two nodes, two integration points, each owned by the node of
  the same number; the velocity has two states and the density three. The
  kernel \<open>ex_kernel\<close> is the one the constructor builds from these with the
  consistent shape functions, after the time step is bound to
  \<open>ex_timeIntegrator\<close>.
\<close>

definition ex_T :: AlgTraits where
  "ex_T = \<lparr> nDim = 2, nodesPerElement = 2, numScvIp = 2 \<rparr>"

definition ex_meSCV :: "real MasterElement" where
  "ex_meSCV = \<lparr> me_ipNodeMap = (\<lambda>ip. ip),
                shape_fcn = (\<lambda>ip ic. 1/2),
                shifted_shape_fcn = (\<lambda>ip ic. if ip = ic then 1 else 0) \<rparr>"

definition ex_velocity :: Field where
  "ex_velocity = \<lparr> field_ptr = 10, number_of_states = 2,
     field_of_state = (\<lambda>st. case st of StateNP1 \<Rightarrow> 10 | StateN \<Rightarrow> 11 | StateNM1 \<Rightarrow> 12) \<rparr>"

definition ex_density :: Field where
  "ex_density = \<lparr> field_ptr = 20, number_of_states = 3,
     field_of_state = (\<lambda>st. case st of StateNP1 \<Rightarrow> 20 | StateN \<Rightarrow> 21 | StateNM1 \<Rightarrow> 22) \<rparr>"

definition ex_dpdx :: Field where
  "ex_dpdx = \<lparr> field_ptr = 30, number_of_states = 1, field_of_state = (\<lambda>st. 30) \<rparr>"

definition ex_coordinates :: Field where
  "ex_coordinates = \<lparr> field_ptr = 40, number_of_states = 1, field_of_state = (\<lambda>st. 40) \<rparr>"

definition ex_metaData :: MetaData where
  "ex_metaData = \<lparr> get_field = (\<lambda>name.
      if name = ''velocity'' then Some ex_velocity
      else if name = ''density'' then Some ex_density
      else if name = ''dpdx'' then Some ex_dpdx
      else if name = ''coordinates'' then Some ex_coordinates
      else None) \<rparr>"

definition ex_solnOpts :: SolutionOptions where
  "ex_solnOpts = \<lparr> get_coordinates_name = ''coordinates'' \<rparr>"

definition ex_timeIntegrator :: "real TimeIntegrator" where
  "ex_timeIntegrator = \<lparr> get_time_step = 1/10, get_gamma1 = 3/2, get_gamma2 = - 2, get_gamma3 = 1/2 \<rparr>"

definition ex_kernel :: "real Kernel" where
  "ex_kernel =
     \<lparr> lumpedMass = False, ipNodeMap = (\<lambda>ip. ip),
       velocityNm1 = 11, velocityN = 11, velocityNp1 = 10,
       densityNm1 = 22, densityN = 21, densityNp1 = 20,
       Gjp = 30, coordinates = 40,
       dt = 1/10, gamma1 = 3/2, gamma2 = - 2, gamma3 = 1/2,
       v_shape_function = (\<lambda>ip ic. 1/2),
       v_uNm1 = (\<lambda>j. 0), v_uN = (\<lambda>j. 0), v_uNp1 = (\<lambda>j. 0), v_Gjp = (\<lambda>j. 0) \<rparr>"

definition ex_requests :: "real ElemDataRequests" where
  "ex_requests =
     [ Cvfem_volume_me ex_meSCV,
       Gathered_nodal_field 40 2,
       Gathered_nodal_field 22 1, Gathered_nodal_field 21 1, Gathered_nodal_field 20 1,
       Gathered_nodal_field 11 2, Gathered_nodal_field 11 2, Gathered_nodal_field 10 2,
       Gathered_nodal_field 30 2,
       Master_element_call_SCV_VOLUME ]"

definition ex_scratchViews :: "real ScratchViews" where
  "ex_scratchViews =
     \<lparr> get_scratch_view_1D = (\<lambda>h ic. 2),
       get_scratch_view_2D = (\<lambda>h ic j.
          if h = 30 then real ic + real j
          else if h = 40 then real ic
          else if j = 0 then 1 else 3),
       scv_volume = (\<lambda>ip. 1/4) \<rparr>"

definition ex_scratchViews2 :: "real ScratchViews" where
  "ex_scratchViews2 =
     \<lparr> get_scratch_view_1D = (\<lambda>h ic. if h = 22 then 7 + real ic else 2),
       get_scratch_view_2D = (\<lambda>h ic j.
          if h = 30 then real ic + real j
          else if h = 40 then 5 * real ic + real j
          else if j = 0 then 1 else 3),
       scv_volume = (\<lambda>ip. 1/4) \<rparr>"

text \<open>
  The storage of a kernel before the constructor runs, with handles that are
  not aliased, and a scratch context in which the storage of the \<open>n-1\<close>
  velocity (handle 12, which the two-state velocity field never uses) differs
  from the storage of the \<open>n\<close> velocity (handle 11).
\<close>

definition ex_k0 :: "real Kernel" where
  "ex_k0 =
     \<lparr> lumpedMass = True, ipNodeMap = (\<lambda>ip. 7),
       velocityNm1 = 91, velocityN = 92, velocityNp1 = 93,
       densityNm1 = 94, densityN = 95, densityNp1 = 96,
       Gjp = 97, coordinates = 98,
       dt = 1/10, gamma1 = 3/2, gamma2 = - 2, gamma3 = 1/2,
       v_shape_function = (\<lambda>ip ic. 0),
       v_uNm1 = (\<lambda>j. 0), v_uN = (\<lambda>j. 0), v_uNp1 = (\<lambda>j. 0), v_Gjp = (\<lambda>j. 0) \<rparr>"

definition ex_scratchViews3 :: "real ScratchViews" where
  "ex_scratchViews3 =
     \<lparr> get_scratch_view_1D = (\<lambda>h ic. if h = 22 then 7 + real ic else 2),
       get_scratch_view_2D = (\<lambda>h ic j.
          if h = 12 then 100 + real ic
          else if h = 11 then 1 + real ic + real j
          else real j),
       scv_volume = (\<lambda>ip. 1/4) \<rparr>"

section \<open>Scalars with a NaN\<close>

text \<open>
  A scalar type in which a value is a real number or NaN. The operations are
  exact on the numbers, and NaN is absorbing as in IEEE 754: every operation
  with a NaN operand gives NaN, in particular \<open>0 * NaN = NaN\<close>. Infinities
  are not told apart from NaN (they too give NaN when multiplied by zero):
  a division by zero gives NaN. Rounding and overflow are not modelled.
\<close>

datatype fpval = Num real | NaN

instantiation fpval :: "{zero,plus,times,uminus,minus,inverse}"
begin

definition zero_fpval :: fpval where
  "zero_fpval = Num 0"

fun plus_fpval :: "fpval \<Rightarrow> fpval \<Rightarrow> fpval" where
  "plus_fpval (Num a) (Num b) = Num (a + b)"
| "plus_fpval _ _ = NaN"

fun times_fpval :: "fpval \<Rightarrow> fpval \<Rightarrow> fpval" where
  "times_fpval (Num a) (Num b) = Num (a * b)"
| "times_fpval _ _ = NaN"

fun uminus_fpval :: "fpval \<Rightarrow> fpval" where
  "uminus_fpval (Num a) = Num (- a)"
| "uminus_fpval NaN = NaN"

fun minus_fpval :: "fpval \<Rightarrow> fpval \<Rightarrow> fpval" where
  "minus_fpval (Num a) (Num b) = Num (a - b)"
| "minus_fpval _ _ = NaN"

fun inverse_fpval :: "fpval \<Rightarrow> fpval" where
  "inverse_fpval (Num a) = (if a = 0 then NaN else Num (inverse a))"
| "inverse_fpval NaN = NaN"

fun divide_fpval :: "fpval \<Rightarrow> fpval \<Rightarrow> fpval" where
  "divide_fpval (Num a) (Num b) = (if b = 0 then NaN else Num (a / b))"
| "divide_fpval _ _ = NaN"

instance ..

end





section \<open>Each loop computes its closed form\<close>

lemma zero_work_fold:
  "fold (\<lambda>j k. k\<lparr> v_uNm1 := (v_uNm1 k)(j := 0),
                    v_uN := (v_uN k)(j := 0),
                    v_uNp1 := (v_uNp1 k)(j := 0),
                    v_Gjp := (v_Gjp k)(j := 0) \<rparr>) [0..<n] k =
   k\<lparr> v_uNm1 := (\<lambda>j. if j < n then 0 else v_uNm1 k j),
      v_uN := (\<lambda>j. if j < n then 0 else v_uN k j),
      v_uNp1 := (\<lambda>j. if j < n then 0 else v_uNp1 k j),
      v_Gjp := (\<lambda>j. if j < n then 0 else v_Gjp k j) \<rparr>"
  by (induction n) (auto simp: fun_eq_iff less_Suc_eq)

lemma zero_work_eq:
  "zero_work T k =
   k\<lparr> v_uNm1 := (\<lambda>j. if j < nDim T then 0 else v_uNm1 k j),
      v_uN := (\<lambda>j. if j < nDim T then 0 else v_uN k j),
      v_uNp1 := (\<lambda>j. if j < nDim T then 0 else v_uNp1 k j),
      v_Gjp := (\<lambda>j. if j < nDim T then 0 else v_Gjp k j) \<rparr>"
  unfolding zero_work_def by (rule zero_work_fold)

lemma interp_dims_fold:
  "fold (\<lambda>j k. k\<lparr> v_uNm1 := (v_uNm1 k)(j := v_uNm1 k j + r * a ic j),
                    v_uN := (v_uN k)(j := v_uN k j + r * b ic j),
                    v_uNp1 := (v_uNp1 k)(j := v_uNp1 k j + r * c ic j),
                    v_Gjp := (v_Gjp k)(j := v_Gjp k j + r * d ic j) \<rparr>) [0..<n] k =
   k\<lparr> v_uNm1 := (\<lambda>j. if j < n then v_uNm1 k j + r * a ic j else v_uNm1 k j),
      v_uN := (\<lambda>j. if j < n then v_uN k j + r * b ic j else v_uN k j),
      v_uNp1 := (\<lambda>j. if j < n then v_uNp1 k j + r * c ic j else v_uNp1 k j),
      v_Gjp := (\<lambda>j. if j < n then v_Gjp k j + r * d ic j else v_Gjp k j) \<rparr>"
  by (induction n) (auto simp: fun_eq_iff less_Suc_eq)

lemma interp_dims_eq:
  "interp_dims T v r ic k =
   k\<lparr> v_uNm1 := (\<lambda>j. if j < nDim T then v_uNm1 k j + r * v_velocityNm1 v ic j else v_uNm1 k j),
      v_uN := (\<lambda>j. if j < nDim T then v_uN k j + r * v_velocityN v ic j else v_uN k j),
      v_uNp1 := (\<lambda>j. if j < nDim T then v_uNp1 k j + r * v_velocityNp1 v ic j else v_uNp1 k j),
      v_Gjp := (\<lambda>j. if j < nDim T then v_Gjp k j + r * v_Gpdx v ic j else v_Gjp k j) \<rparr>"
  unfolding interp_dims_def by (rule interp_dims_fold)

lemma accumulate_Suc:
  "accumulate w f (Suc n) a = accumulate w f n a + w n * f n"
  by (simp add: accumulate_def)

lemma accumulate_0: "accumulate w f 0 a = a"
  by (simp add: accumulate_def)

lemma interp_nodes_fold:
  "fold (\<lambda>ic (k, rhoNm1, rhoN, rhoNp1).
             let r = v_shape_function k ip ic
             in (interp_dims T v r ic k,
                 rhoNm1 + r * v_densityNm1 v ic,
                 rhoN + r * v_densityN v ic,
                 rhoNp1 + r * v_densityNp1 v ic)) [0..<n] (k, a, b, c) =
   (k\<lparr> v_uNm1 := (\<lambda>j. if j < nDim T
          then accumulate (v_shape_function k ip) (\<lambda>ic. v_velocityNm1 v ic j) n (v_uNm1 k j)
          else v_uNm1 k j),
      v_uN := (\<lambda>j. if j < nDim T
          then accumulate (v_shape_function k ip) (\<lambda>ic. v_velocityN v ic j) n (v_uN k j)
          else v_uN k j),
      v_uNp1 := (\<lambda>j. if j < nDim T
          then accumulate (v_shape_function k ip) (\<lambda>ic. v_velocityNp1 v ic j) n (v_uNp1 k j)
          else v_uNp1 k j),
      v_Gjp := (\<lambda>j. if j < nDim T
          then accumulate (v_shape_function k ip) (\<lambda>ic. v_Gpdx v ic j) n (v_Gjp k j)
          else v_Gjp k j) \<rparr>,
    accumulate (v_shape_function k ip) (v_densityNm1 v) n a,
    accumulate (v_shape_function k ip) (v_densityN v) n b,
    accumulate (v_shape_function k ip) (v_densityNp1 v) n c)"
  by (induction n) (auto simp: fun_eq_iff accumulate_Suc accumulate_0 interp_dims_eq Let_def)

lemma rhs_dims_fold:
  "fold (\<lambda>j rhs. rhs(nn + j := rhs (nn + j) + g j)) [0..<n] rhs =
   (\<lambda>i. if nn \<le> i \<and> i < nn + n then rhs i + g (i - nn) else rhs i)"
  by (induction n) (auto simp: fun_eq_iff less_Suc_eq)

lemma rhs_dims_eq:
  "rhs_dims T k nn rhoNm1 rhoN rhoNp1 scV rhs =
   (\<lambda>i. if nn \<le> i \<and> i < nn + nDim T
        then rhs i +
               (- (gamma1 k * rhoNp1 * v_uNp1 k (i - nn) +
                   gamma2 k * rhoN * v_uN k (i - nn) +
                   gamma3 k * rhoNm1 * v_uNm1 k (i - nn)) * scV / dt k
                - v_Gjp k (i - nn) * scV)
        else rhs i)"
  unfolding rhs_dims_def by (rule rhs_dims_fold)

lemma lhs_dims_fold:
  "fold (\<lambda>j lhs.
             let indexNN = nn + j
             in lhs(indexNN := (lhs indexNN)(icN + j := lhs indexNN (icN + j) + fac)))
        [0..<n] lhs =
   (\<lambda>r c. if nn \<le> r \<and> r < nn + n \<and> c = icN + (r - nn) then lhs r c + fac else lhs r c)"
  by (induction n) (auto simp: fun_eq_iff less_Suc_eq Let_def)

lemma lhs_dims_eq:
  "lhs_dims T nn icN fac lhs =
   (\<lambda>r c. if nn \<le> r \<and> r < nn + nDim T \<and> c = icN + (r - nn) then lhs r c + fac else lhs r c)"
  unfolding lhs_dims_def by (rule lhs_dims_fold)

text \<open>
  A column \<open>ic * d + j\<close> with \<open>j < d\<close> determines the node \<open>ic\<close> and the
  dimension \<open>j\<close>; a row of the block of node \<open>m\<close> determines \<open>m\<close>.
\<close>

lemma col_decomp:
  fixes d :: nat
  assumes "j < d"
  shows "c = ic * d + j \<longleftrightarrow> c div d = ic \<and> c mod d = j"
proof
  assume "c = ic * d + j"
  then show "c div d = ic \<and> c mod d = j"
    using assms by simp
next
  assume "c div d = ic \<and> c mod d = j"
  then have "c div d * d + c mod d = ic * d + j"
    by simp
  then show "c = ic * d + j"
    by (simp only: div_mult_mod_eq)
qed

lemma in_block:
  fixes d :: nat
  assumes "j < d"
  shows "(m * d \<le> n * d + j \<and> n * d + j < m * d + d) \<longleftrightarrow> m = n"
proof
  assume a: "m * d \<le> n * d + j \<and> n * d + j < m * d + d"
  then have "(n * d + j) div d = m"
    by (intro div_nat_eqI) (simp_all add: mult.commute)
  moreover have "(n * d + j) div d = n"
    using assms by simp
  ultimately show "m = n" by simp
next
  assume "m = n"
  then show "m * d \<le> n * d + j \<and> n * d + j < m * d + d"
    using assms by simp
qed


lemma lhs_nodes_fold:
  "fold (\<lambda>ic lhs.
             let icNdim = ic * nDim T;
                 r = w ic;
                 lhsfac = r * g * rho * scV / d
             in lhs_dims T nn icNdim lhsfac lhs) [0..<n] lhs =
   (\<lambda>r c. if nn \<le> r \<and> r < nn + nDim T \<and> c mod nDim T = r - nn \<and> c div nDim T < n
          then lhs r c + w (c div nDim T) * g * rho * scV / d else lhs r c)"
  (is "fold ?F [0..<n] lhs = ?closed n")
proof (induction n)
  case 0
  show ?case by simp
next
  case (Suc n)
  have step: "?F n (?closed n) r c = ?closed (Suc n) r c" for r c
  proof (cases "nn \<le> r \<and> r < nn + nDim T")
    case False
    then show ?thesis by (auto simp: lhs_dims_eq Let_def)
  next
    case True
    then obtain j where r: "r = nn + j" and j: "j < nDim T"
      by (metis add_diff_inverse_nat nat_add_left_cancel_less not_less)
    show ?thesis
      unfolding r using j by (auto simp: lhs_dims_eq Let_def less_Suc_eq col_decomp[OF j])
  qed
  have "fold ?F [0..<Suc n] lhs = ?F n (fold ?F [0..<n] lhs)"
    by simp
  also have "\<dots> = ?F n (?closed n)"
    by (simp only: Suc)
  also have "\<dots> = ?closed (Suc n)"
    using step by (intro ext)
  finally show ?case .
qed

lemma lhs_nodes_eq:
  "lhs_nodes T k ip nn rhoNp1 scV lhs =
   (\<lambda>r c. if nn \<le> r \<and> r < nn + nDim T \<and> c mod nDim T = r - nn \<and> c div nDim T < nodesPerElement T
          then lhs r c + v_shape_function k ip (c div nDim T) * gamma1 k * rhoNp1 * scV / dt k
          else lhs r c)"
  unfolding lhs_nodes_def by (rule lhs_nodes_fold)

lemma interpolate_ip_eq:
  "interpolate_ip T v ip k =
     (work_after T v ip k,
      ip_scalar T k ip (v_densityNm1 v),
      ip_scalar T k ip (v_densityN v),
      ip_scalar T k ip (v_densityNp1 v))"
  unfolding interpolate_ip_def interp_nodes_def zero_work_eq
  by (simp add: interp_nodes_fold work_after_def ip_scalar_def cong: if_cong)

lemma ip_body_eq:
  "ip_body T v ip (k, lhs, rhs) =
     (work_after T v ip k, lhs_add T k v ip lhs, rhs_add T k v ip rhs)"
  by (auto simp: ip_body_def interpolate_ip_eq rhs_dims_eq lhs_nodes_eq Let_def
        lhs_add_def rhs_add_def rhs_term_def lhs_term_def work_after_def fun_eq_iff)

section \<open>The loop over the integration points\<close>

text \<open>
  The body of the loop changes the work arrays of the kernel and nothing else
  of it, so every integration point works with the configuration
  \<^verbatim>\<open>execute\<close> was called with.
\<close>

lemma same_config_refl: "same_config k k"
  by (simp add: same_config_def)

lemma same_config_fields:
  assumes "same_config k k'"
  shows "ipNodeMap k' = ipNodeMap k" "v_shape_function k' = v_shape_function k"
    "dt k' = dt k" "gamma1 k' = gamma1 k" "gamma2 k' = gamma2 k" "gamma3 k' = gamma3 k"
    "velocityNm1 k' = velocityNm1 k" "velocityN k' = velocityN k" "velocityNp1 k' = velocityNp1 k"
    "densityNm1 k' = densityNm1 k" "densityN k' = densityN k" "densityNp1 k' = densityNp1 k"
    "Gjp k' = Gjp k" "coordinates k' = coordinates k" "lumpedMass k' = lumpedMass k"
  using assms unfolding same_config_def by (cases k, cases k', simp)+

lemma same_config_work_after:
  "same_config k k' \<Longrightarrow> same_config k (work_after T v ip k')"
  unfolding same_config_def work_after_def by simp

lemma same_config_work_run: "same_config k (work_run T v n k)"
  unfolding work_run_def
  by (induction n) (simp_all add: same_config_refl same_config_work_after)

lemma same_config_terms:
  assumes "same_config k k'"
  shows "ip_scalar T k' = ip_scalar T k" "rhs_term T k' = rhs_term T k" "lhs_term T k' = lhs_term T k"
    "rhs_add T k' = rhs_add T k" "lhs_add T k' = lhs_add T k"
    "local_views k' = local_views k"
  by (simp_all add: fun_eq_iff ip_scalar_def rhs_term_def lhs_term_def rhs_add_def lhs_add_def
        local_views_def same_config_fields[OF assms])

lemma fold_ip_body:
  "fold (ip_body T v) [0..<n] (k, lhs, rhs) =
     (work_run T v n k, lhs_run T k v n lhs, rhs_run T k v n rhs)"
proof (induction n)
  case 0
  show ?case by (simp add: work_run_def lhs_run_def rhs_run_def)
next
  case (Suc n)
  have sc: "same_config k (work_run T v n k)" by (rule same_config_work_run)
  show ?case
    by (simp add: Suc ip_body_eq same_config_terms[OF sc])
       (simp add: work_run_def lhs_run_def rhs_run_def)
qed

lemma execute_eq:
  "execute T k lhs rhs s =
     (work_run T (local_views k s) (numScvIp T) k,
      lhs_run T k (local_views k s) (numScvIp T) lhs,
      rhs_run T k (local_views k s) (numScvIp T) rhs)"
  unfolding execute_def by (rule fold_ip_body)

lemma execute_lhs_eq:
  "execute_lhs T k lhs rhs s = lhs_run T k (local_views k s) (numScvIp T) lhs"
  by (simp add: execute_lhs_def execute_eq)

lemma execute_rhs_eq:
  "execute_rhs T k lhs rhs s = rhs_run T k (local_views k s) (numScvIp T) rhs"
  by (simp add: execute_rhs_def execute_eq)

lemma rhs_run_0: "rhs_run T k v 0 rhs = rhs"
  by (simp add: rhs_run_def)

lemma rhs_run_Suc: "rhs_run T k v (Suc n) rhs = rhs_add T k v n (rhs_run T k v n rhs)"
  by (simp add: rhs_run_def)

lemma lhs_run_0: "lhs_run T k v 0 lhs = lhs"
  by (simp add: lhs_run_def)

lemma lhs_run_Suc: "lhs_run T k v (Suc n) lhs = lhs_add T k v n (lhs_run T k v n lhs)"
  by (simp add: lhs_run_def)

subsection \<open>Entries the loop does not touch\<close>

lemma rhs_add_other:
  "\<not> (ipNodeMap k ip * nDim T \<le> i \<and> i < ipNodeMap k ip * nDim T + nDim T) \<Longrightarrow>
   rhs_add T k v ip rhs i = rhs i"
  by (auto simp: rhs_add_def)

lemma lhs_add_other_row:
  "\<not> (ipNodeMap k ip * nDim T \<le> r \<and> r < ipNodeMap k ip * nDim T + nDim T) \<Longrightarrow>
   lhs_add T k v ip lhs r c = lhs r c"
  by (auto simp: lhs_add_def)


lemma rhs_run_frame:
  assumes "\<forall>ip<n. \<not> (ipNodeMap k ip * nDim T \<le> i \<and> i < ipNodeMap k ip * nDim T + nDim T)"
  shows "rhs_run T k v n rhs i = rhs i"
  using assms
proof (induction n)
  case 0
  show ?case by (simp add: rhs_run_0)
next
  case (Suc n)
  then show ?case by (simp add: rhs_run_Suc rhs_add_other)
qed

lemma lhs_run_frame:
  assumes "\<forall>ip<n. \<not> (ipNodeMap k ip * nDim T \<le> r \<and> r < ipNodeMap k ip * nDim T + nDim T)"
  shows "lhs_run T k v n lhs r c = lhs r c"
  using assms
proof (induction n)
  case 0
  show ?case by (simp add: lhs_run_0)
next
  case (Suc n)
  then show ?case by (simp add: lhs_run_Suc lhs_add_other_row)
qed


subsection \<open>The buffers as sums over the integration points\<close>

text \<open>
  Where addition is associative and commutative with neutral element \<open>0\<close>, the
  running sums are sums, and the order of the integration points does not matter.
\<close>

lemma accumulate_sum:
  fixes a :: "'a::{comm_monoid_add,times}"
  shows "accumulate w f n a = a + (\<Sum>ic<n. w ic * f ic)"
  by (induction n) (simp_all add: accumulate_0 accumulate_Suc add.assoc)

lemma ip_scalar_interpolate:
  fixes k :: "'a::{comm_monoid_add,times} Kernel"
  shows "ip_scalar T k ip f = interpolate T k ip f"
  by (simp add: ip_scalar_def interpolate_def accumulate_sum)


lemma neg_form:
  fixes X :: "'a::field"
  shows "- X * s / d - g = - (X * s / d + g)"
  by simp

lemma neg_form4:
  fixes g :: "'a::field"
  shows "- (g * r * u * s / d + G) = - g * r * u * s / d - G"
  by simp

lemma rhs_term_residual:
  fixes k :: "'a::field Kernel"
  shows "rhs_term T k v ip j = - residual_term T k v ip j"
  by (simp only: rhs_term_def residual_term_def ip_scalar_interpolate neg_form)

lemma sum_owned:
  fixes g :: "nat \<Rightarrow> 'a::comm_monoid_add"
  shows "(\<Sum>ip<n. if P ip then g ip else 0) = (\<Sum>ip | ip < n \<and> P ip. g ip)"
  using sum.inter_filter[of "{..<n}" g P] by simp

lemma rhs_run_sum:
  fixes k :: "'a::{comm_monoid_add,times,uminus,minus,inverse} Kernel"
  shows "rhs_run T k v n rhs i =
     rhs i + (\<Sum>ip<n. if ipNodeMap k ip * nDim T \<le> i \<and> i < ipNodeMap k ip * nDim T + nDim T
                       then rhs_term T k v ip (i - ipNodeMap k ip * nDim T) else 0)"
  by (induction n) (simp_all add: rhs_run_def rhs_add_def add.assoc)

lemma rhs_run_node:
  fixes k :: "'a::{comm_monoid_add,times,uminus,minus,inverse} Kernel"
  assumes "j < nDim T"
  shows "rhs_run T k v (numScvIp T) rhs (n * nDim T + j) =
     rhs (n * nDim T + j) + (\<Sum>ip\<in>owned_ips T k n. rhs_term T k v ip j)"
  unfolding rhs_run_sum owned_ips_def
  by (simp add: in_block[OF assms] sum_owned cong: if_cong)

lemma lhs_run_sum:
  fixes k :: "'a::{comm_monoid_add,times,inverse} Kernel"
  shows "lhs_run T k v n lhs r c =
     lhs r c + (\<Sum>ip<n. if ipNodeMap k ip * nDim T \<le> r \<and> r < ipNodeMap k ip * nDim T + nDim T \<and>
                            c mod nDim T = r - ipNodeMap k ip * nDim T \<and>
                            c div nDim T < nodesPerElement T
                       then lhs_term T k v ip (c div nDim T) else 0)"
  by (induction n) (simp_all add: lhs_run_def lhs_add_def add.assoc)


subsection \<open>Interpolation of constants, a vanishing third coefficient, aliased states\<close>

lemma interpolate_const:
  fixes k :: "'a::comm_semiring_1 Kernel"
  assumes "(\<Sum>ic<nodesPerElement T. v_shape_function k ip ic) = 1"
    and "\<forall>ic<nodesPerElement T. f ic = c"
  shows "interpolate T k ip f = c"
proof -
  have "interpolate T k ip f = (\<Sum>ic<nodesPerElement T. v_shape_function k ip ic * c)"
    unfolding interpolate_def using assms(2) by (intro sum.cong) simp_all
  also have "\<dots> = (\<Sum>ic<nodesPerElement T. v_shape_function k ip ic) * c"
    by (simp add: sum_distrib_right)
  finally show ?thesis using assms(1) by simp
qed

lemma residual_term_uniform:
  fixes k :: "'a::field Kernel"
  assumes row: "(\<Sum>ic<nodesPerElement T. v_shape_function k ip ic) = 1"
    and rho: "\<forall>ic<nodesPerElement T.
                v_densityNm1 v ic = \<rho> \<and> v_densityN v ic = \<rho> \<and> v_densityNp1 v ic = \<rho>"
    and u: "\<forall>ic<nodesPerElement T.
                v_velocityNm1 v ic j = uj \<and> v_velocityN v ic j = uj \<and> v_velocityNp1 v ic j = uj"
  shows "residual_term T k v ip j =
           (gamma1 k + gamma2 k + gamma3 k) * \<rho> * uj * v_scv_volume v ip / dt k
           + interpolate T k ip (\<lambda>ic. v_Gpdx v ic j) * v_scv_volume v ip"
proof -
  have d: "interpolate T k ip (v_densityNm1 v) = \<rho>" "interpolate T k ip (v_densityN v) = \<rho>"
    "interpolate T k ip (v_densityNp1 v) = \<rho>"
    using rho by (auto intro!: interpolate_const[OF row])
  have v: "interpolate T k ip (\<lambda>ic. v_velocityNm1 v ic j) = uj"
    "interpolate T k ip (\<lambda>ic. v_velocityN v ic j) = uj"
    "interpolate T k ip (\<lambda>ic. v_velocityNp1 v ic j) = uj"
    using u by (auto intro!: interpolate_const[OF row])
  show ?thesis
    unfolding residual_term_def d v by (simp add: algebra_simps)
qed

lemma rhs_term_gamma3_zero:
  fixes k :: "'a::{semiring_0,uminus,minus,inverse} Kernel"
  assumes "gamma3 k = 0"
  shows "rhs_term T k v ip j =
     - (gamma1 k * ip_scalar T k ip (v_densityNp1 v) * ip_scalar T k ip (\<lambda>ic. v_velocityNp1 v ic j) +
        gamma2 k * ip_scalar T k ip (v_densityN v) * ip_scalar T k ip (\<lambda>ic. v_velocityN v ic j))
       * v_scv_volume v ip / dt k
     - ip_scalar T k ip (\<lambda>ic. v_Gpdx v ic j) * v_scv_volume v ip"
  by (simp add: rhs_term_def assms)


lemma fp_add_zero:
  fixes x :: fpval
  shows "x + 0 = x"
  by (cases x) (simp_all add: zero_fpval_def)



lemma interpolate_ip_alias:
  "velocityNm1 k = velocityN k \<Longrightarrow> j < nDim T \<Longrightarrow>
     (case interpolate_ip T (local_views k s) ip k of
        (k1, rhoNm1, rhoN, rhoNp1) \<Rightarrow> v_uNm1 k1 j = v_uN k1 j)"
  "densityNm1 k = densityN k \<Longrightarrow>
     (case interpolate_ip T (local_views k s) ip k of
        (k1, rhoNm1, rhoN, rhoNp1) \<Rightarrow> rhoNm1 = rhoN)"
  by (simp_all add: interpolate_ip_eq work_after_def local_views_def)

subsection \<open>The constructor returns a kernel exactly when the four fields resolve\<close>

lemma constructor_succeeds:
  assumes "get_field metaData ''velocity'' = Some velocity"
    and "get_field metaData ''density'' = Some density"
    and "get_field metaData ''dpdx'' = Some Gjp_f"
    and "get_field metaData (get_coordinates_name solnOpts) = Some coordinates_f"
  shows "\<exists>k reqs'. MomentumMassElemKernel T meSCV metaData solnOpts reqs lumped k0 = Some (k, reqs') \<and>
           velocityN k = field_of_state velocity StateN \<and>
           velocityNm1 k = (if number_of_states velocity = 2 then velocityN k
                            else field_of_state velocity StateNM1) \<and>
           densityN k = field_of_state density StateN \<and>
           densityNm1 k = (if number_of_states density = 2 then densityN k
                            else field_of_state density StateNM1)"
  using assms by (simp add: MomentumMassElemKernel_def Let_def)

lemma constructor_fails:
  "get_field metaData ''velocity'' = None \<or> get_field metaData ''density'' = None \<or>
   get_field metaData ''dpdx'' = None \<or>
   get_field metaData (get_coordinates_name solnOpts) = None \<Longrightarrow>
   MomentumMassElemKernel T meSCV metaData solnOpts reqs lumped k0 = None"
  by (auto simp: MomentumMassElemKernel_def split: option.splits)

text \<open>The constructor run on the small element, from storage with other handles.\<close>

lemma ex_k0_constructed:
  "MomentumMassElemKernel ex_T ex_meSCV ex_metaData ex_solnOpts [] False ex_k0 =
     Some (ex_kernel, ex_requests)"
  by (simp add: MomentumMassElemKernel_def ex_T_def ex_meSCV_def ex_metaData_def ex_solnOpts_def
        ex_kernel_def ex_k0_def ex_requests_def ex_velocity_def ex_density_def ex_dpdx_def
        ex_coordinates_def Let_def)

text \<open>
  The loops themselves, run on the small element from zero buffers: the
  residual of node 1, dimension 0, and the Jacobian entry of that row in the
  column of node 0, dimension 0.
\<close>

lemma ex_execute_values:
  "execute_rhs ex_T ex_kernel (\<lambda>_ _. 0) (\<lambda>_. 0) ex_scratchViews 2 = - 1/8"
  "execute_lhs ex_T ex_kernel (\<lambda>_ _. 0) (\<lambda>_. 0) ex_scratchViews 2 0 = 15/4"
  by (simp_all add: execute_rhs_def execute_lhs_def execute_def ex_T_def ex_kernel_def
        ex_scratchViews_def local_views_def ip_body_def interpolate_ip_def interp_nodes_def
        interp_dims_def zero_work_def rhs_dims_def lhs_nodes_def lhs_dims_def upt_rec Let_def)

text \<open>
  The call leaves the work arrays changed: the kernel a second call starts
  from is not the kernel the first call started from.
\<close>

lemma ex_work_arrays_change:
  "v_uNp1 ex_kernel 0 = 0"
  "v_uNp1 (fst (execute ex_T ex_kernel (\<lambda>_ _. 0) (\<lambda>_. 0) ex_scratchViews)) 0 = 1"
  by (simp_all add: execute_eq work_run_def work_after_def ip_scalar_def accumulate_def
        ex_T_def ex_kernel_def ex_scratchViews_def local_views_def upt_rec)

section \<open>The claims\<close>





text \<open>
  Claim C3. When the gathered density is one constant \<open>\<rho>\<close> and the gathered
  velocity one constant vector \<open>u\<close>, at every node and time level, and every
  row of the shape-function table sums to 1, then in exact arithmetic each
  integration point contributes
  \<open>- (\<gamma>1 + \<gamma>2 + \<gamma>3)\<cdot>\<rho>\<cdot>u\<^sub>j\<cdot>scV/dt - Gjp\<^sub>j\<cdot>scV\<close> to the residual entry of its
  node and dimension \<open>j\<close>: the entry of node \<open>n\<close> grows by the sum of that
  term over the integration points node \<open>n\<close> owns (one term where the node
  owns one point).
\<close>

theorem uniform_residual:
  fixes k :: "'a::field Kernel"
  assumes j: "j < nDim T"
    and rows: "\<forall>ip<numScvIp T. (\<Sum>ic<nodesPerElement T. v_shape_function k ip ic) = 1"
    and rho: "\<forall>ic<nodesPerElement T.
                get_scratch_view_1D s (densityNm1 k) ic = \<rho> \<and>
                get_scratch_view_1D s (densityN k) ic = \<rho> \<and>
                get_scratch_view_1D s (densityNp1 k) ic = \<rho>"
    and u: "\<forall>ic<nodesPerElement T. \<forall>j<nDim T.
                get_scratch_view_2D s (velocityNm1 k) ic j = u j \<and>
                get_scratch_view_2D s (velocityN k) ic j = u j \<and>
                get_scratch_view_2D s (velocityNp1 k) ic j = u j"
  shows "execute_rhs T k lhs rhs s (n * nDim T + j) =
           rhs (n * nDim T + j) +
             (\<Sum>ip\<in>owned_ips T k n.
                - (gamma1 k + gamma2 k + gamma3 k) * \<rho> * u j * scv_volume s ip / dt k
                - interpolate T k ip (\<lambda>ic. get_scratch_view_2D s (Gjp k) ic j) * scv_volume s ip)"
proof -
  have "residual_term T k (local_views k s) ip j =
          (gamma1 k + gamma2 k + gamma3 k) * \<rho> * u j * scv_volume s ip / dt k
          + interpolate T k ip (\<lambda>ic. get_scratch_view_2D s (Gjp k) ic j) * scv_volume s ip"
    if "ip \<in> owned_ips T k n" for ip
  proof -
    have "ip < numScvIp T" using that by (simp add: owned_ips_def)
    then have row: "(\<Sum>ic<nodesPerElement T. v_shape_function k ip ic) = 1"
      using rows by simp
    show ?thesis
      using residual_term_uniform[OF row, of "local_views k s" \<rho> j "u j"] rho u j
      by (simp add: local_views_def)
  qed
  then have "(\<Sum>ip\<in>owned_ips T k n. rhs_term T k (local_views k s) ip j) =
        (\<Sum>ip\<in>owned_ips T k n.
                - (gamma1 k + gamma2 k + gamma3 k) * \<rho> * u j * scv_volume s ip / dt k
                - interpolate T k ip (\<lambda>ic. get_scratch_view_2D s (Gjp k) ic j) * scv_volume s ip)"
    by (intro sum.cong refl) (simp only: rhs_term_residual neg_form4)
  then show ?thesis
    by (simp add: execute_rhs_eq rhs_run_node[OF j])
qed

theorem uniform_residual_witness:
  "execute_rhs ex_T ex_kernel (\<lambda>_ _. 0) (\<lambda>_. 0) ex_scratchViews (1 * nDim ex_T + 0) =
     0 + (\<Sum>ip\<in>owned_ips ex_T ex_kernel 1.
            - (gamma1 ex_kernel + gamma2 ex_kernel + gamma3 ex_kernel) * 2 * 1
                * scv_volume ex_scratchViews ip / dt ex_kernel
            - interpolate ex_T ex_kernel ip
                (\<lambda>ic. get_scratch_view_2D ex_scratchViews (Gjp ex_kernel) ic 0)
                * scv_volume ex_scratchViews ip)"
  using uniform_residual[of 0 ex_T ex_kernel ex_scratchViews 2 "\<lambda>j. if j = 0 then 1 else 3"
          "\<lambda>_ _. 0" "\<lambda>_. 0" 1]
  by (simp add: ex_T_def ex_kernel_def ex_scratchViews_def)

text \<open>
  Claim C4. When the four fields resolve, the constructor returns a kernel
  whose handle of the \<open>n-1\<close> velocity is the handle of the \<open>n\<close> velocity when
  the velocity field has two states, and the same for the density, each field
  by its own number of states (with another number of states the handle is
  the field's own \<open>n-1\<close> state). For every later state \<open>k'\<close> of the kernel,
  which has the same handles, the \<open>n-1\<close> value interpolated from a two-state
  field at any integration point is the \<open>n\<close> value, whatever the arithmetic.
\<close>

theorem two_state_aliasing:
  fixes k0 :: "'a::{zero,plus,times} Kernel"
  assumes "get_field metaData ''velocity'' = Some velocity"
    and "get_field metaData ''density'' = Some density"
    and "get_field metaData ''dpdx'' = Some Gjp_f"
    and "get_field metaData (get_coordinates_name solnOpts) = Some coordinates_f"
  shows "\<exists>k reqs'.
     MomentumMassElemKernel T meSCV metaData solnOpts reqs lumped k0 = Some (k, reqs') \<and>
     velocityN k = field_of_state velocity StateN \<and>
     densityN k = field_of_state density StateN \<and>
     (number_of_states velocity = 2 \<longrightarrow>
        velocityNm1 k = velocityN k \<and>
        (\<forall>(k'::'a Kernel) s ip j. velocityNm1 k' = velocityNm1 k \<and> velocityN k' = velocityN k \<and> j < nDim T \<longrightarrow>
           (case interpolate_ip T (local_views k' s) ip k' of
              (k1, rhoNm1, rhoN, rhoNp1) \<Rightarrow> v_uNm1 k1 j = v_uN k1 j))) \<and>
     (number_of_states density = 2 \<longrightarrow>
        densityNm1 k = densityN k \<and>
        (\<forall>(k'::'a Kernel) s ip. densityNm1 k' = densityNm1 k \<and> densityN k' = densityN k \<longrightarrow>
           (case interpolate_ip T (local_views k' s) ip k' of
              (k1, rhoNm1, rhoN, rhoNp1) \<Rightarrow> rhoNm1 = rhoN))) \<and>
     (number_of_states velocity \<noteq> 2 \<longrightarrow> velocityNm1 k = field_of_state velocity StateNM1) \<and>
     (number_of_states density \<noteq> 2 \<longrightarrow> densityNm1 k = field_of_state density StateNM1)"
proof -
  obtain k reqs' where
    c: "MomentumMassElemKernel T meSCV metaData solnOpts reqs lumped k0 = Some (k, reqs')"
    and h: "velocityN k = field_of_state velocity StateN"
      "velocityNm1 k = (if number_of_states velocity = 2 then velocityN k
                        else field_of_state velocity StateNM1)"
      "densityN k = field_of_state density StateN"
      "densityNm1 k = (if number_of_states density = 2 then densityN k
                        else field_of_state density StateNM1)"
    using constructor_succeeds[OF assms] by blast
  have v2: "velocityNm1 k = velocityN k" if "number_of_states velocity = 2"
    using that h(2) by simp
  have v3: "velocityNm1 k = field_of_state velocity StateNM1" if "number_of_states velocity \<noteq> 2"
    using that h(2) by simp
  have d2: "densityNm1 k = densityN k" if "number_of_states density = 2"
    using that h(4) by simp
  have d3: "densityNm1 k = field_of_state density StateNM1" if "number_of_states density \<noteq> 2"
    using that h(4) by simp
  have v: "\<forall>(k'::'a Kernel) s ip j. velocityNm1 k' = velocityNm1 k \<and> velocityN k' = velocityN k \<and> j < nDim T \<longrightarrow>
           (case interpolate_ip T (local_views k' s) ip k' of
              (k1, rhoNm1, rhoN, rhoNp1) \<Rightarrow> v_uNm1 k1 j = v_uN k1 j)"
    if "number_of_states velocity = 2"
  proof (intro allI impI)
    fix k' :: "'a Kernel" and s ip j
    assume "velocityNm1 k' = velocityNm1 k \<and> velocityN k' = velocityN k \<and> j < nDim T"
    then have "velocityNm1 k' = velocityN k'" "j < nDim T"
      using v2[OF that] by simp_all
    then show "case interpolate_ip T (local_views k' s) ip k' of
              (k1, rhoNm1, rhoN, rhoNp1) \<Rightarrow> v_uNm1 k1 j = v_uN k1 j"
      by (rule interpolate_ip_alias(1))
  qed
  have d: "\<forall>(k'::'a Kernel) s ip. densityNm1 k' = densityNm1 k \<and> densityN k' = densityN k \<longrightarrow>
           (case interpolate_ip T (local_views k' s) ip k' of
              (k1, rhoNm1, rhoN, rhoNp1) \<Rightarrow> rhoNm1 = rhoN)"
    if "number_of_states density = 2"
  proof (intro allI impI)
    fix k' :: "'a Kernel" and s ip
    assume "densityNm1 k' = densityNm1 k \<and> densityN k' = densityN k"
    then have "densityNm1 k' = densityN k'"
      using d2[OF that] by simp
    then show "case interpolate_ip T (local_views k' s) ip k' of
              (k1, rhoNm1, rhoN, rhoNp1) \<Rightarrow> rhoNm1 = rhoN"
      by (rule interpolate_ip_alias(2))
  qed
  show ?thesis
    using c h(1,3) v2 v3 d2 d3 v d by (intro exI[of _ k] exI[of _ reqs']) simp
qed

theorem two_state_aliasing_witness:
  "MomentumMassElemKernel ex_T ex_meSCV ex_metaData ex_solnOpts [] False ex_k0 =
     Some (ex_kernel, ex_requests) \<and>
   velocityNm1 ex_k0 \<noteq> velocityN ex_k0 \<and>
   number_of_states ex_velocity = 2 \<and> number_of_states ex_density \<noteq> 2 \<and>
   velocityNm1 ex_kernel = velocityN ex_kernel \<and>
   velocityN ex_kernel = field_of_state ex_velocity StateN \<and>
   (case interpolate_ip ex_T (local_views ex_kernel ex_scratchViews3) 1 ex_kernel of
      (k1, rhoNm1, rhoN, rhoNp1) \<Rightarrow> v_uNm1 k1 0 = v_uN k1 0) \<and>
   densityNm1 ex_kernel = field_of_state ex_density StateNM1"
proof -
  have f: "get_field ex_metaData ''velocity'' = Some ex_velocity"
    "get_field ex_metaData ''density'' = Some ex_density"
    "get_field ex_metaData ''dpdx'' = Some ex_dpdx"
    "get_field ex_metaData (get_coordinates_name ex_solnOpts) = Some ex_coordinates"
    by (simp_all add: ex_metaData_def ex_solnOpts_def)
  have n: "number_of_states ex_velocity = 2" "number_of_states ex_density \<noteq> 2"
    "(0::nat) < nDim ex_T"
    by (simp_all add: ex_velocity_def ex_density_def ex_T_def)
  obtain k reqs' where
    c: "MomentumMassElemKernel ex_T ex_meSCV ex_metaData ex_solnOpts [] False ex_k0 = Some (k, reqs')"
    and p: "velocityN k = field_of_state ex_velocity StateN"
      "velocityNm1 k = velocityN k"
      "\<forall>(k'::real Kernel) s ip j.
           velocityNm1 k' = velocityNm1 k \<and> velocityN k' = velocityN k \<and> j < nDim ex_T \<longrightarrow>
           (case interpolate_ip ex_T (local_views k' s) ip k' of
              (k1, rhoNm1, rhoN, rhoNp1) \<Rightarrow> v_uNm1 k1 j = v_uN k1 j)"
      "densityNm1 k = field_of_state ex_density StateNM1"
    using two_state_aliasing[OF f, where T = ex_T and meSCV = ex_meSCV and reqs = "[]"
            and lumped = False and ?k0.0 = ex_k0] n
    by blast
  have k: "k = ex_kernel" "reqs' = ex_requests"
    using c ex_k0_constructed by simp_all
  have "case interpolate_ip ex_T (local_views ex_kernel ex_scratchViews3) 1 ex_kernel of
      (k1, rhoNm1, rhoN, rhoNp1) \<Rightarrow> v_uNm1 k1 0 = v_uN k1 0"
    using p(3)[unfolded k, THEN spec[where x = ex_kernel], THEN spec[where x = ex_scratchViews3],
            THEN spec[where x = 1], THEN spec[where x = 0]] n(3)
    by simp
  then show ?thesis
    using c p(1,2,4) n unfolding k by (simp add: ex_k0_def)
qed




text \<open>
  In an arithmetic where \<open>0 * x = 0\<close> and \<open>x + 0 = x\<close> for every \<open>x\<close> (the real
  numbers for one), no condition on the \<open>n-1\<close> values is needed.
\<close>

lemma gamma3_zero_exact:
  fixes k :: "'a::{semiring_0,uminus,minus,inverse} Kernel"
  assumes "gamma3 k = 0"
    and "get_scratch_view_1D s' (densityN k) = get_scratch_view_1D s (densityN k)"
    and "get_scratch_view_1D s' (densityNp1 k) = get_scratch_view_1D s (densityNp1 k)"
    and "get_scratch_view_2D s' (velocityN k) = get_scratch_view_2D s (velocityN k)"
    and "get_scratch_view_2D s' (velocityNp1 k) = get_scratch_view_2D s (velocityNp1 k)"
    and "get_scratch_view_2D s' (Gjp k) = get_scratch_view_2D s (Gjp k)"
    and "scv_volume s' = scv_volume s"
  shows "execute_rhs T k lhs rhs s' = execute_rhs T k lhs rhs s \<and>
         execute_lhs T k lhs rhs s' = execute_lhs T k lhs rhs s"
proof -
  have "rhs_term T k (local_views k s') ip j = rhs_term T k (local_views k s) ip j" for ip j
    by (simp add: rhs_term_gamma3_zero local_views_def assms)
  then have r: "rhs_add T k (local_views k s') = rhs_add T k (local_views k s)"
    by (intro ext) (simp add: rhs_add_def)
  have "lhs_term T k (local_views k s') ip ic = lhs_term T k (local_views k s) ip ic" for ip ic
    by (simp add: lhs_term_def local_views_def assms)
  then have l: "lhs_add T k (local_views k s') = lhs_add T k (local_views k s)"
    by (intro ext) (simp add: lhs_add_def)
  show ?thesis
    by (simp add: execute_rhs_eq execute_lhs_eq rhs_run_def lhs_run_def r l)
qed

text \<open>
  Claim C6. Whatever the buffers hold before, each entry after \<^verbatim>\<open>execute\<close>
  is its value before plus the contribution of the kernel, and the
  contribution is what \<^verbatim>\<open>execute\<close> leaves in buffers that were zero: it does
  not depend on what the buffers held. Addition is associative and
  commutative with neutral element \<open>0\<close>.
\<close>

theorem accumulate_only:
  fixes k :: "'a::{comm_monoid_add,times,uminus,minus,inverse} Kernel"
  shows "execute_rhs T k lhs rhs s i = rhs i + execute_rhs T k (\<lambda>_ _. 0) (\<lambda>_. 0) s i \<and>
         execute_lhs T k lhs rhs s r c = lhs r c + execute_lhs T k (\<lambda>_ _. 0) (\<lambda>_. 0) s r c"
  by (simp add: execute_rhs_eq execute_lhs_eq rhs_run_sum lhs_run_sum)

text \<open>
  Claim C7. A second call of \<^verbatim>\<open>execute\<close>, on the kernel as the first call
  left it (its work arrays hold the values of the last integration point),
  with the same scratch context and with buffers reset to what they were
  before the first call (zero for instance), leaves the same Jacobian and the
  same residual as the first call. No law of arithmetic is assumed: the same
  operations are applied to the same operands.
\<close>

theorem execute_deterministic:
  "execute_lhs T (fst (execute T k lhs rhs s)) lhs rhs s = execute_lhs T k lhs rhs s \<and>
   execute_rhs T (fst (execute T k lhs rhs s)) lhs rhs s = execute_rhs T k lhs rhs s"
proof -
  have sc: "same_config k (fst (execute T k lhs rhs s))"
    by (simp add: execute_eq same_config_work_run)
  show ?thesis
    by (simp add: execute_rhs_eq execute_lhs_eq rhs_run_def lhs_run_def same_config_terms[OF sc])
qed

text \<open>
  Claim C8. The time-step binding copies the step size and the three
  coefficients of the time integrator into the kernel, changes nothing else
  of the kernel (putting the four old values back gives the old kernel), and
  a second binding to an integrator that reports the same four values changes
  nothing.
\<close>

theorem setup_binds_time_step:
  "dt (kernel_setup ti k) = get_time_step ti \<and>
   gamma1 (kernel_setup ti k) = get_gamma1 ti \<and>
   gamma2 (kernel_setup ti k) = get_gamma2 ti \<and>
   gamma3 (kernel_setup ti k) = get_gamma3 ti \<and>
   (kernel_setup ti k)\<lparr> dt := dt k, gamma1 := gamma1 k, gamma2 := gamma2 k, gamma3 := gamma3 k \<rparr> = k \<and>
   (get_time_step ti' = get_time_step ti \<and> get_gamma1 ti' = get_gamma1 ti \<and>
    get_gamma2 ti' = get_gamma2 ti \<and> get_gamma3 ti' = get_gamma3 ti \<longrightarrow>
      kernel_setup ti' (kernel_setup ti k) = kernel_setup ti k)"
  by (simp add: kernel_setup_def)

theorem setup_binds_time_step_witness:
  "kernel_setup ex_timeIntegrator (kernel_setup ex_timeIntegrator ex_kernel) =
     kernel_setup ex_timeIntegrator ex_kernel \<and>
   dt (kernel_setup ex_timeIntegrator ex_kernel) = 1/10"
  using setup_binds_time_step[of ex_timeIntegrator ex_kernel ex_timeIntegrator]
  by (simp add: ex_timeIntegrator_def)

text \<open>
  Claim C9. The coordinates are not read by \<^verbatim>\<open>execute\<close>: two scratch
  contexts that differ in the gathered values of the coordinate field only
  give the same Jacobian and residual, the coordinate field being a field of
  its own (its handle is none of the seven handles \<^verbatim>\<open>execute\<close> reads); and
  the handle of the coordinates held by the kernel has no influence either.
\<close>

theorem coordinates_not_read:
  assumes "coordinates k \<notin> {densityNm1 k, densityN k, densityNp1 k,
                             velocityNm1 k, velocityN k, velocityNp1 k, Gjp k}"
    and "scv_volume s' = scv_volume s"
    and "\<forall>h. h \<noteq> coordinates k \<longrightarrow>
           get_scratch_view_1D s' h = get_scratch_view_1D s h \<and>
           get_scratch_view_2D s' h = get_scratch_view_2D s h"
  shows "execute_lhs T k lhs rhs s' = execute_lhs T k lhs rhs s \<and>
         execute_rhs T k lhs rhs s' = execute_rhs T k lhs rhs s \<and>
         execute_lhs T (k\<lparr>coordinates := p\<rparr>) lhs rhs s = execute_lhs T k lhs rhs s \<and>
         execute_rhs T (k\<lparr>coordinates := p\<rparr>) lhs rhs s = execute_rhs T k lhs rhs s"
proof -
  have v: "local_views k s' = local_views k s"
    using assms by (simp add: local_views_def)
  have p: "local_views (k\<lparr>coordinates := p\<rparr>) s = local_views k s"
    "rhs_add T (k\<lparr>coordinates := p\<rparr>) = rhs_add T k"
    "lhs_add T (k\<lparr>coordinates := p\<rparr>) = lhs_add T k"
    by (simp_all add: local_views_def fun_eq_iff rhs_add_def lhs_add_def rhs_term_def lhs_term_def
          ip_scalar_def)
  show ?thesis
    by (simp add: execute_rhs_eq execute_lhs_eq v rhs_run_def lhs_run_def p)
qed

theorem coordinates_not_read_witness:
  "execute_lhs ex_T ex_kernel (\<lambda>_ _. 0) (\<lambda>_. 0) ex_scratchViews2 =
     execute_lhs ex_T ex_kernel (\<lambda>_ _. 0) (\<lambda>_. 0)
       (ex_scratchViews2\<lparr> get_scratch_view_2D :=
           (get_scratch_view_2D ex_scratchViews2)(40 := \<lambda>ic j. 9) \<rparr>) \<and>
   execute_rhs ex_T ex_kernel (\<lambda>_ _. 0) (\<lambda>_. 0) ex_scratchViews2 =
     execute_rhs ex_T ex_kernel (\<lambda>_ _. 0) (\<lambda>_. 0)
       (ex_scratchViews2\<lparr> get_scratch_view_2D :=
           (get_scratch_view_2D ex_scratchViews2)(40 := \<lambda>ic j. 9) \<rparr>)"
  using coordinates_not_read[of ex_kernel ex_scratchViews2
          "ex_scratchViews2\<lparr> get_scratch_view_2D :=
              (get_scratch_view_2D ex_scratchViews2)(40 := \<lambda>ic j. 9) \<rparr>"
          ex_T "\<lambda>_ _. 0" "\<lambda>_. 0" 0]
  by (simp add: ex_kernel_def)

text \<open>
  Claim C10. A node \<open>n\<close> that is the nearest node of no integration point
  keeps its residual entries and its Jacobian rows, in every dimension \<open>j\<close>
  and every column, whatever the input and the arithmetic.
\<close>

theorem execute_frame:
  assumes "n \<notin> ipNodeMap k ` {..<numScvIp T}" and "j < nDim T"
  shows "execute_rhs T k lhs rhs s (n * nDim T + j) = rhs (n * nDim T + j) \<and>
         (\<forall>c. execute_lhs T k lhs rhs s (n * nDim T + j) c = lhs (n * nDim T + j) c)"
proof -
  have "\<forall>ip<numScvIp T. \<not> (ipNodeMap k ip * nDim T \<le> n * nDim T + j \<and>
          n * nDim T + j < ipNodeMap k ip * nDim T + nDim T)"
    using assms by (auto simp: in_block)
  then show ?thesis
    by (simp add: execute_rhs_eq execute_lhs_eq rhs_run_frame lhs_run_frame)
qed

theorem execute_frame_witness:
  "2 \<notin> ipNodeMap ex_kernel ` {..<numScvIp ex_T} \<and>
   execute_rhs ex_T ex_kernel (\<lambda>_ _. 0) (\<lambda>_. 5) ex_scratchViews (2 * nDim ex_T + 1) = 5 \<and>
   execute_lhs ex_T ex_kernel (\<lambda>_ _. 6) (\<lambda>_. 0) ex_scratchViews (2 * nDim ex_T + 1) 3 = 6"
  using execute_frame[of 2 ex_kernel ex_T 1 "\<lambda>_ _. 6" "\<lambda>_. 5" ex_scratchViews]
    execute_frame[of 2 ex_kernel ex_T 1 "\<lambda>_ _. 6" "\<lambda>_. 0" ex_scratchViews]
    execute_frame[of 2 ex_kernel ex_T 1 "\<lambda>_ _. 0" "\<lambda>_. 5" ex_scratchViews]
  by (simp add: ex_kernel_def ex_T_def)

end
